theory Spec2Isabelle
  imports Complex_Main
begin

section \<open>The virtual light of \<^verbatim>\<open>appdaemon/apps/helper/virtual_light.py\<close>\<close>

text \<open>
  A virtual light is a proxy entity of the home-automation platform. Its methods send
  service calls for the entity \<open>ha_id\<close> to the platform, and its state-change callback
  mirrors the entity's state onto a list of physical light entities.

  Python values that may be \<^verbatim>\<open>None\<close> are options over the value's type, with
  \<open>None\<close> for Python's \<^verbatim>\<open>None\<close>. Python integers are unbounded, so they are
  \<open>int\<close>. A Python float is only ever handed on to a helper of the module
  \<^verbatim>\<open>globals\<close>, and is a \<open>real\<close>.
\<close>

subsection \<open>Values of the platform\<close>

type_synonym rgb = "int \<times> int \<times> int"

text \<open>
  The attributes of a light entity that the class reads. The dictionary of attributes
  is taken to hold each of these keys, with the value \<^verbatim>\<open>None\<close> where the platform
  has no value for it; \<^verbatim>\<open>api.get_state\<close> answers \<^verbatim>\<open>None\<close> for such an
  attribute as well.
\<close>

record attributes =
  brightness :: "int option"
  color_temp_kelvin :: "int option"
  min_color_temp_kelvin :: "int option"
  max_color_temp_kelvin :: "int option"
  rgb_color :: "rgb option"

text \<open>
  The full state of an entity, as the platform hands it to a callback registered with
  \<^verbatim>\<open>attribute="all"\<close>: the dictionary with the keys \<^verbatim>\<open>"state"\<close> and
  \<^verbatim>\<open>"attributes"\<close>.
\<close>

record ha_state =
  state :: string
  attributes :: attributes

text \<open>The argument \<^verbatim>\<open>new\<close> of the callback: the empty string, or a full state.\<close>

datatype new_value = Empty_string | State_dict ha_state

text \<open>What \<^verbatim>\<open>api.get_state\<close> answers, by entity id.\<close>

type_synonym platform = "string \<Rightarrow> ha_state"

text \<open>
  The two helpers imported from the module \<^verbatim>\<open>globals\<close>, which is not part of the
  source at hand: they are parameters of the model. The first is only ever applied to a
  number. The second also receives the bounds that the platform reports, which may be
  \<^verbatim>\<open>None\<close>, so it is allowed to raise.
\<close>

datatype error = ValueError | TypeError | AttributeError

record globals =
  decimal_to_octet_proportional :: "real \<Rightarrow> int"
  decimal_to_custom_range_proportional :: "real \<Rightarrow> int option \<Rightarrow> int option \<Rightarrow> error + int"

subsection \<open>The enumeration of states\<close>

datatype VirtualLightState = ON | OFF

text \<open>
  Calling the enumeration on a value looks the member with that value up and raises
  \<^verbatim>\<open>ValueError\<close> when there is none.
\<close>

definition VirtualLightState_of :: "string \<Rightarrow> error + VirtualLightState" where
  "VirtualLightState_of v =
     (if v = ''on'' then Inr ON else if v = ''off'' then Inr OFF else Inl ValueError)"

subsection \<open>Physical light entities and what is sent to them\<close>

text \<open>
  A physical light entity is an object of another class of the repository. The callback
  asks it with \<^verbatim>\<open>hasattr\<close> which of three methods it has; \<^verbatim>\<open>turn_on\<close> and
  \<^verbatim>\<open>turn_off\<close> are called without asking.
\<close>

record light_entity =
  entity_name :: string
  has_turn_on_with_brightness_and_temp_kelvin :: bool
  has_turn_on_with_brightness_and_rgb :: bool
  has_turn_on_with_brightness :: bool

datatype entity_cmd =
    Turn_on_with_brightness_and_temp_kelvin "int option" "int option"
  | Turn_on_with_brightness_and_rgb "int option" "rgb option"
  | Turn_on_with_brightness "int option"
  | Turn_on
  | Turn_off

subsection \<open>The object and the effects of its methods\<close>

text \<open>
  Of the room of a virtual light only the attribute \<^verbatim>\<open>log\<close> is read. The field
  \<^verbatim>\<open>room\<close> of the object is \<^verbatim>\<open>None\<close> from construction until the room assigns
  itself. The field \<^verbatim>\<open>api\<close>, the handle of the platform, is assigned once in the
  constructor; what the platform answers is a parameter of the methods that ask it.
\<close>

record room =
  room_log :: string

record virtual_light =
  ha_id :: string
  room :: "room option"
  light_entities :: "light_entity list"
  default_temp_kelvin :: int
  last_on_brightness :: "int option"
  last_on_temp_kelvin :: "int option"
  overwrite_next_on_brightness :: "int option"
  overwrite_next_on_temp_kelvin :: "int option"

text \<open>
  A keyword argument of a service call is absent, or given with a value (which may be
  \<^verbatim>\<open>None\<close>).
\<close>

datatype 'a kwarg = Absent | Given 'a

datatype log_msg =
    Event_detected new_value
  | Turned_on
  | Turned_on_brightness_none
  | Turned_off

text \<open>
  Everything a method does to the outside, in the order it does it: calls of the
  platform API (\<^verbatim>\<open>listen_state\<close>, \<^verbatim>\<open>log\<close>, \<^verbatim>\<open>turn_on\<close> with its keyword
  arguments \<^verbatim>\<open>brightness\<close>, \<^verbatim>\<open>color_temp_kelvin\<close> and \<^verbatim>\<open>rgb_color\<close>,
  \<^verbatim>\<open>turn_off\<close>) and method calls on physical light entities.
\<close>

datatype effect =
    Api_listen_state string
  | Api_log log_msg string
  | Api_turn_on string "int option kwarg" "int option kwarg" "rgb option kwarg"
  | Api_turn_off string
  | Entity_call light_entity entity_cmd

text \<open>
  A run of a method: the exception it raised, if any, the object afterwards, and the
  effects up to its return or raise.
\<close>

record run =
  raised :: "error option"
  vl :: virtual_light
  effects :: "effect list"

definition returns :: "virtual_light \<Rightarrow> effect list \<Rightarrow> run" where
  "returns s es = \<lparr>raised = None, vl = s, effects = es\<rparr>"

definition raises :: "error \<Rightarrow> virtual_light \<Rightarrow> effect list \<Rightarrow> run" where
  "raises e s es = \<lparr>raised = Some e, vl = s, effects = es\<rparr>"

text \<open>The calls that reached physical light entities, in order.\<close>

fun entity_calls :: "effect list \<Rightarrow> (light_entity \<times> entity_cmd) list" where
  "entity_calls [] = []"
| "entity_calls (Entity_call e c # es) = (e, c) # entity_calls es"
| "entity_calls (_ # es) = entity_calls es"

subsection \<open>Construction\<close>

definition init :: "string \<Rightarrow> light_entity list \<Rightarrow> run" where
  "init hid les =
     returns
       \<lparr>ha_id = hid, room = None, light_entities = les, default_temp_kelvin = 3000,
        last_on_brightness = None, last_on_temp_kelvin = None,
        overwrite_next_on_brightness = None, overwrite_next_on_temp_kelvin = None\<rparr>
       [Api_listen_state hid]"

subsection \<open>Getters\<close>

definition get_state :: "platform \<Rightarrow> virtual_light \<Rightarrow> error + VirtualLightState" where
  "get_state api s = VirtualLightState_of (state (api (ha_id s)))"

definition get_brightness :: "platform \<Rightarrow> virtual_light \<Rightarrow> int option" where
  "get_brightness api s = brightness (attributes (api (ha_id s)))"

definition get_temp_kelvin :: "platform \<Rightarrow> virtual_light \<Rightarrow> int option" where
  "get_temp_kelvin api s = color_temp_kelvin (attributes (api (ha_id s)))"

definition get_default_temp_kelvin :: "virtual_light \<Rightarrow> int" where
  "get_default_temp_kelvin s = default_temp_kelvin s"

definition get_min_temp_kelvin :: "platform \<Rightarrow> virtual_light \<Rightarrow> int option" where
  "get_min_temp_kelvin api s = min_color_temp_kelvin (attributes (api (ha_id s)))"

definition get_max_temp_kelvin :: "platform \<Rightarrow> virtual_light \<Rightarrow> int option" where
  "get_max_temp_kelvin api s = max_color_temp_kelvin (attributes (api (ha_id s)))"

definition get_rgb :: "platform \<Rightarrow> virtual_light \<Rightarrow> rgb option" where
  "get_rgb api s = rgb_color (attributes (api (ha_id s)))"

subsection \<open>Setters\<close>

definition set_overwrite_next_on_brightness :: "virtual_light \<Rightarrow> int option \<Rightarrow> run" where
  "set_overwrite_next_on_brightness s b = returns (s\<lparr>overwrite_next_on_brightness := b\<rparr>) []"

definition set_overwrite_next_on_temp_kelvin :: "virtual_light \<Rightarrow> int option \<Rightarrow> run" where
  "set_overwrite_next_on_temp_kelvin s t = returns (s\<lparr>overwrite_next_on_temp_kelvin := t\<rparr>) []"

subsection \<open>Standard turn on/off methods\<close>

definition turn_on_with_brightness_and_temp_kelvin ::
  "virtual_light \<Rightarrow> int option \<Rightarrow> int option \<Rightarrow> run" where
  "turn_on_with_brightness_and_temp_kelvin s b t =
     returns s [Api_turn_on (ha_id s) (Given b) (Given t) Absent]"

definition turn_on_with_brightness_and_rgb ::
  "virtual_light \<Rightarrow> int option \<Rightarrow> rgb option \<Rightarrow> run" where
  "turn_on_with_brightness_and_rgb s b c =
     returns s [Api_turn_on (ha_id s) (Given b) Absent (Given c)]"

definition turn_on_with_brightness :: "virtual_light \<Rightarrow> int option \<Rightarrow> run" where
  "turn_on_with_brightness s b =
     (if overwrite_next_on_temp_kelvin s \<noteq> None
      then turn_on_with_brightness_and_temp_kelvin s b (overwrite_next_on_temp_kelvin s)
      else returns s [Api_turn_on (ha_id s) (Given b) Absent Absent])"

definition turn_on :: "virtual_light \<Rightarrow> run" where
  "turn_on s =
     (if overwrite_next_on_brightness s \<noteq> None \<and> overwrite_next_on_temp_kelvin s \<noteq> None
      then turn_on_with_brightness_and_temp_kelvin s
             (overwrite_next_on_brightness s) (overwrite_next_on_temp_kelvin s)
      else if overwrite_next_on_brightness s \<noteq> None
      then turn_on_with_brightness s (overwrite_next_on_brightness s)
      else returns s [Api_turn_on (ha_id s) Absent Absent Absent])"

definition turn_off :: "virtual_light \<Rightarrow> run" where
  "turn_off s = returns s [Api_turn_off (ha_id s)]"

definition toggle :: "platform \<Rightarrow> virtual_light \<Rightarrow> run" where
  "toggle api s =
     (case get_state api s of
        Inl e \<Rightarrow> raises e s []
      | Inr st \<Rightarrow> if st = ON then turn_off s else turn_on s)"

subsection \<open>Special turn on methods\<close>

definition turn_on_with_max_illumination :: "virtual_light \<Rightarrow> run" where
  "turn_on_with_max_illumination s =
     turn_on_with_brightness_and_temp_kelvin s (Some 255) (Some (get_default_temp_kelvin s))"

definition turn_on_with_last_or_default_temp_kelvin :: "virtual_light \<Rightarrow> run" where
  "turn_on_with_last_or_default_temp_kelvin s =
     (if last_on_temp_kelvin s \<noteq> None
      then turn_on_with_brightness_and_temp_kelvin s (last_on_brightness s) (last_on_temp_kelvin s)
      else if last_on_brightness s \<noteq> None
      then turn_on_with_brightness_and_temp_kelvin s
             (last_on_brightness s) (Some (default_temp_kelvin s))
      else turn_on_with_brightness_and_temp_kelvin s (Some 255) (Some (default_temp_kelvin s)))"

text \<open>Adding a number to \<^verbatim>\<open>None\<close> raises \<^verbatim>\<open>TypeError\<close>.\<close>

definition turn_on_with_brightness_delta :: "platform \<Rightarrow> virtual_light \<Rightarrow> int \<Rightarrow> run" where
  "turn_on_with_brightness_delta api s brightness_delta =
     (case get_brightness api s of
        None \<Rightarrow> raises TypeError s []
      | Some b \<Rightarrow>
          let new_brightness = b + brightness_delta;
              new_brightness =
                (if new_brightness < 0 then 0
                 else if new_brightness > 255 then 255
                 else new_brightness)
          in turn_on_with_brightness s (Some new_brightness))"

definition turn_on_with_brightness_delta_decimal ::
  "globals \<Rightarrow> platform \<Rightarrow> virtual_light \<Rightarrow> real \<Rightarrow> run" where
  "turn_on_with_brightness_delta_decimal g api s brightness_delta_decimal =
     turn_on_with_brightness_delta api s
       (decimal_to_octet_proportional g brightness_delta_decimal)"

text \<open>
  The built-ins \<^verbatim>\<open>min\<close> and \<^verbatim>\<open>max\<close> compare their arguments, which raises
  \<^verbatim>\<open>TypeError\<close> between a number and \<^verbatim>\<open>None\<close>.
\<close>

definition turn_on_with_temp_kelvin_delta :: "platform \<Rightarrow> virtual_light \<Rightarrow> int \<Rightarrow> run" where
  "turn_on_with_temp_kelvin_delta api s temp_kelvin_delta =
     (let temp_kelvin =
            (case get_temp_kelvin api s of
               None \<Rightarrow>
                 (case last_on_temp_kelvin s of
                    None \<Rightarrow> default_temp_kelvin s
                  | Some l \<Rightarrow> l)
             | Some t \<Rightarrow> t);
          new_temp_kelvin = temp_kelvin + temp_kelvin_delta
      in case get_max_temp_kelvin api s of
           None \<Rightarrow> raises TypeError s []
         | Some max_temp_kelvin \<Rightarrow>
             (case get_min_temp_kelvin api s of
                None \<Rightarrow> raises TypeError s []
              | Some min_temp_kelvin \<Rightarrow>
                  let new_temp_kelvin = max (min new_temp_kelvin max_temp_kelvin) min_temp_kelvin;
                      current_brightness = get_brightness api s
                  in turn_on_with_brightness_and_temp_kelvin s
                       current_brightness (Some new_temp_kelvin)))"

definition turn_on_with_temp_kelvin_delta_decimal ::
  "globals \<Rightarrow> platform \<Rightarrow> virtual_light \<Rightarrow> real \<Rightarrow> run" where
  "turn_on_with_temp_kelvin_delta_decimal g api s temp_kelvin_delta_decimal =
     (case decimal_to_custom_range_proportional g temp_kelvin_delta_decimal
             (get_min_temp_kelvin api s) (get_max_temp_kelvin api s) of
        Inl e \<Rightarrow> raises e s []
      | Inr d \<Rightarrow> turn_on_with_temp_kelvin_delta api s d)"

subsection \<open>The callback\<close>

text \<open>
  One pass of the loop over the light entities: the priority list of attributes. The
  comparison \<^verbatim>\<open>brightness > 247\<close> raises \<^verbatim>\<open>TypeError\<close> on \<^verbatim>\<open>None\<close>.
\<close>

definition update_light_entity :: "attributes \<Rightarrow> light_entity \<Rightarrow> error + entity_cmd" where
  "update_light_entity a light_entity =
     (if color_temp_kelvin a \<noteq> None \<and> has_turn_on_with_brightness_and_temp_kelvin light_entity
      then Inr (Turn_on_with_brightness_and_temp_kelvin (brightness a) (color_temp_kelvin a))
      else if rgb_color a \<noteq> None \<and> has_turn_on_with_brightness_and_rgb light_entity
      then Inr (Turn_on_with_brightness_and_rgb (brightness a) (rgb_color a))
      else if has_turn_on_with_brightness light_entity
      then Inr (Turn_on_with_brightness (brightness a))
      else
        (case brightness a of
           None \<Rightarrow> Inl TypeError
         | Some b \<Rightarrow>
             if b > 247 \<and> (case color_temp_kelvin a of None \<Rightarrow> False | Some t \<Rightarrow> t > 2900)
             then Inr Turn_on
             else Inr Turn_off))"

text \<open>The loop: it stops at the first exception, with the calls made so far.\<close>

fun update_light_entities :: "attributes \<Rightarrow> light_entity list \<Rightarrow> error option \<times> effect list" where
  "update_light_entities a [] = (None, [])"
| "update_light_entities a (light_entity # rest) =
     (case update_light_entity a light_entity of
        Inl e \<Rightarrow> (Some e, [])
      | Inr c \<Rightarrow>
          (case update_light_entities a rest of
             (r, cs) \<Rightarrow> (r, Entity_call light_entity c # cs)))"

text \<open>
  The callback. Its parameters \<^verbatim>\<open>entity\<close>, \<^verbatim>\<open>attribute\<close>, \<^verbatim>\<open>old\<close> and
  \<^verbatim>\<open>kwargs\<close> are never read. Every log call reads \<^verbatim>\<open>self.room.log\<close>, which raises
  \<^verbatim>\<open>AttributeError\<close> while \<^verbatim>\<open>room\<close> is still \<^verbatim>\<open>None\<close>.
\<close>

definition callback :: "globals \<Rightarrow> virtual_light \<Rightarrow> new_value \<Rightarrow> run" where
  "callback g s new =
     (case new of
        Empty_string \<Rightarrow> returns s []
      | State_dict d \<Rightarrow>
          (case room s of
             None \<Rightarrow> raises AttributeError s []
           | Some r \<Rightarrow>
               let detected = [Api_log (Event_detected new) (room_log r)]
               in case VirtualLightState_of (state d) of
                    Inl e \<Rightarrow> raises e s detected
                  | Inr st \<Rightarrow>
                      if st = ON \<and> brightness (attributes d) \<noteq> None then
                        let s1 = s\<lparr>last_on_brightness := brightness (attributes d)\<rparr>;
                            s2 = s1\<lparr>last_on_temp_kelvin := color_temp_kelvin (attributes d)\<rparr>;
                            logged = detected @ [Api_log Turned_on (room_log r)]
                        in case update_light_entities (attributes d) (light_entities s2) of
                             (Some e, cs) \<Rightarrow> raises e s2 (logged @ cs)
                           | (None, cs) \<Rightarrow>
                               returns
                                 (s2\<lparr>overwrite_next_on_brightness := None,
                                     overwrite_next_on_temp_kelvin := None\<rparr>)
                                 (logged @ cs)
                      else if st = ON \<and> brightness (attributes d) = None then
                        let r1 = turn_on_with_brightness_and_temp_kelvin s
                                   (Some (decimal_to_octet_proportional g (1/2)))
                                   (Some (default_temp_kelvin s))
                        in r1\<lparr>effects :=
                                detected @ [Api_log Turned_on_brightness_none (room_log r)]
                                  @ effects r1\<rparr>
                      else if st = OFF then
                        returns s
                          (detected @ [Api_log Turned_off (room_log r)]
                             @ map (\<lambda>light_entity. Entity_call light_entity Turn_off)
                                 (light_entities s))
                      else returns s detected))"

subsection \<open>Reachable objects\<close>

text \<open>
  The operations on an object after its construction: the assignment of \<^verbatim>\<open>room\<close>
  that follows the room's initialisation, every method of the class that sends a call
  or assigns a field, and the callback. The getters only read.
\<close>

datatype operation =
    Assign_room room
  | Call_set_overwrite_next_on_brightness "int option"
  | Call_set_overwrite_next_on_temp_kelvin "int option"
  | Call_turn_on
  | Call_turn_on_with_brightness "int option"
  | Call_turn_on_with_brightness_and_temp_kelvin "int option" "int option"
  | Call_turn_on_with_brightness_and_rgb "int option" "rgb option"
  | Call_turn_off
  | Call_toggle
  | Call_turn_on_with_max_illumination
  | Call_turn_on_with_last_or_default_temp_kelvin
  | Call_turn_on_with_brightness_delta int
  | Call_turn_on_with_brightness_delta_decimal real
  | Call_turn_on_with_temp_kelvin_delta int
  | Call_turn_on_with_temp_kelvin_delta_decimal real
  | Call_callback new_value

fun perform :: "globals \<Rightarrow> platform \<Rightarrow> virtual_light \<Rightarrow> operation \<Rightarrow> run" where
  "perform g api s (Assign_room r) = returns (s\<lparr>room := Some r\<rparr>) []"
| "perform g api s (Call_set_overwrite_next_on_brightness b) =
     set_overwrite_next_on_brightness s b"
| "perform g api s (Call_set_overwrite_next_on_temp_kelvin t) =
     set_overwrite_next_on_temp_kelvin s t"
| "perform g api s Call_turn_on = turn_on s"
| "perform g api s (Call_turn_on_with_brightness b) = turn_on_with_brightness s b"
| "perform g api s (Call_turn_on_with_brightness_and_temp_kelvin b t) =
     turn_on_with_brightness_and_temp_kelvin s b t"
| "perform g api s (Call_turn_on_with_brightness_and_rgb b c) =
     turn_on_with_brightness_and_rgb s b c"
| "perform g api s Call_turn_off = turn_off s"
| "perform g api s Call_toggle = toggle api s"
| "perform g api s Call_turn_on_with_max_illumination = turn_on_with_max_illumination s"
| "perform g api s Call_turn_on_with_last_or_default_temp_kelvin =
     turn_on_with_last_or_default_temp_kelvin s"
| "perform g api s (Call_turn_on_with_brightness_delta d) =
     turn_on_with_brightness_delta api s d"
| "perform g api s (Call_turn_on_with_brightness_delta_decimal x) =
     turn_on_with_brightness_delta_decimal g api s x"
| "perform g api s (Call_turn_on_with_temp_kelvin_delta d) =
     turn_on_with_temp_kelvin_delta api s d"
| "perform g api s (Call_turn_on_with_temp_kelvin_delta_decimal x) =
     turn_on_with_temp_kelvin_delta_decimal g api s x"
| "perform g api s (Call_callback new) = callback g s new"

text \<open>
  The objects reachable from construction. The platform may answer differently at every
  step, and a step that raises leaves the object as it was at the raise.
\<close>

inductive reachable :: "virtual_light \<Rightarrow> bool" where
  constructed: "reachable (vl (init hid les))"
| performed: "reachable s \<Longrightarrow> reachable (vl (perform g api s op))"

subsection \<open>A concrete installation\<close>

text \<open>
  One virtual light over three physical entities of decreasing ability, with its room
  assigned, and one answer of the platform: the inputs at which the properties below are
  evaluated.
\<close>

definition example_entities :: "light_entity list" where
  "example_entities =
     [\<lparr>entity_name = ''light.ceiling'', has_turn_on_with_brightness_and_temp_kelvin = True,
        has_turn_on_with_brightness_and_rgb = True, has_turn_on_with_brightness = True\<rparr>,
      \<lparr>entity_name = ''light.desk'', has_turn_on_with_brightness_and_temp_kelvin = False,
        has_turn_on_with_brightness_and_rgb = False, has_turn_on_with_brightness = True\<rparr>,
      \<lparr>entity_name = ''switch.lamp'', has_turn_on_with_brightness_and_temp_kelvin = False,
        has_turn_on_with_brightness_and_rgb = False, has_turn_on_with_brightness = False\<rparr>]"

definition example_room :: room where
  "example_room = \<lparr>room_log = ''living_room_log''\<rparr>"

definition example_light :: virtual_light where
  "example_light =
     \<lparr>ha_id = ''light.virtual_living_room'', room = Some example_room,
      light_entities = example_entities, default_temp_kelvin = 3000,
      last_on_brightness = None, last_on_temp_kelvin = None,
      overwrite_next_on_brightness = None, overwrite_next_on_temp_kelvin = None\<rparr>"

definition example_attributes :: attributes where
  "example_attributes =
     \<lparr>brightness = Some 250, color_temp_kelvin = Some 4000, min_color_temp_kelvin = Some 2000,
      max_color_temp_kelvin = Some 6500, rgb_color = None\<rparr>"

definition example_api :: platform where
  "example_api = (\<lambda>_. \<lparr>state = ''on'', attributes = example_attributes\<rparr>)"

text \<open>
  The same virtual light as its constructor leaves it, before the room has assigned
  itself: the callback is registered already.
\<close>

definition fresh_light :: virtual_light where
  "fresh_light = vl (init ''light.virtual_living_room'' example_entities)"

text \<open>Some pair of helpers, to have a value of the record at hand.\<close>

definition example_globals :: globals where
  "example_globals =
     \<lparr>decimal_to_octet_proportional = (\<lambda>x. \<lfloor>x * 255\<rfloor>),
      decimal_to_custom_range_proportional = (\<lambda>x lo hi. Inl TypeError)\<rparr>"

section \<open>Properties\<close>

subsection \<open>Helper facts\<close>

lemma example_light_reachable: "reachable example_light"
proof -
  have "reachable (vl (init ''light.virtual_living_room'' example_entities))"
    by (rule constructed)
  then have "reachable (vl (perform g api (vl (init ''light.virtual_living_room'' example_entities))
                (Assign_room example_room)))"
    by (rule performed)
  then show ?thesis
    by (simp add: init_def returns_def example_light_def)
qed

lemma entity_calls_map_Entity_call:
  "entity_calls (map (\<lambda>e. Entity_call e (f e)) es) = map (\<lambda>e. (e, f e)) es"
  by (induction es) simp_all

lemma update_light_entity_on:
  "brightness a = Some b \<Longrightarrow>
   update_light_entity a e =
     Inr (if color_temp_kelvin a \<noteq> None \<and> has_turn_on_with_brightness_and_temp_kelvin e
          then Turn_on_with_brightness_and_temp_kelvin (Some b) (color_temp_kelvin a)
          else if rgb_color a \<noteq> None \<and> has_turn_on_with_brightness_and_rgb e
          then Turn_on_with_brightness_and_rgb (Some b) (rgb_color a)
          else if has_turn_on_with_brightness e
          then Turn_on_with_brightness (Some b)
          else if b > 247 \<and> (\<exists>t. color_temp_kelvin a = Some t \<and> t > 2900)
          then Turn_on
          else Turn_off)"
  by (auto simp: update_light_entity_def split: option.splits)

lemma update_light_entities_on:
  "brightness a = Some b \<Longrightarrow>
   update_light_entities a es =
     (None, map (\<lambda>e. Entity_call e
        (if color_temp_kelvin a \<noteq> None \<and> has_turn_on_with_brightness_and_temp_kelvin e
          then Turn_on_with_brightness_and_temp_kelvin (Some b) (color_temp_kelvin a)
          else if rgb_color a \<noteq> None \<and> has_turn_on_with_brightness_and_rgb e
          then Turn_on_with_brightness_and_rgb (Some b) (rgb_color a)
          else if has_turn_on_with_brightness e
          then Turn_on_with_brightness (Some b)
          else if b > 247 \<and> (\<exists>t. color_temp_kelvin a = Some t \<and> t > 2900)
          then Turn_on
          else Turn_off)) es)"
  by (induction es) (simp_all add: update_light_entity_on)

lemma callback_on_run:
  assumes "room s = Some r" and "state d = ''on''" and "brightness (attributes d) = Some b"
  shows "callback g s (State_dict d) =
     returns
       (s\<lparr>last_on_brightness := Some b, last_on_temp_kelvin := color_temp_kelvin (attributes d),
          overwrite_next_on_brightness := None, overwrite_next_on_temp_kelvin := None\<rparr>)
       ([Api_log (Event_detected (State_dict d)) (room_log r), Api_log Turned_on (room_log r)]
         @ snd (update_light_entities (attributes d) (light_entities s)))"
  using assms
  by (simp add: callback_def VirtualLightState_of_def update_light_entities_on)

lemma callback_frame:
  "ha_id (vl (callback g s new)) = ha_id s \<and>
   room (vl (callback g s new)) = room s \<and>
   light_entities (vl (callback g s new)) = light_entities s \<and>
   default_temp_kelvin (vl (callback g s new)) = default_temp_kelvin s"
  by (simp add: callback_def returns_def raises_def turn_on_with_brightness_and_temp_kelvin_def
        Let_def split: new_value.splits option.splits sum.splits prod.splits)

lemma turn_on_with_brightness_effects:
  "turn_on_with_brightness s b =
     returns s [Api_turn_on (ha_id s) (Given b)
       (case overwrite_next_on_temp_kelvin s of None \<Rightarrow> Absent | Some t \<Rightarrow> Given (Some t))
       Absent]"
  by (simp add: turn_on_with_brightness_def turn_on_with_brightness_and_temp_kelvin_def
        split: option.splits)

lemma callback_not_on_last_on:
  assumes "\<And>d. new = State_dict d \<Longrightarrow> \<not> (state d = ''on'' \<and> brightness (attributes d) \<noteq> None)"
  shows "last_on_brightness (vl (callback g s new)) = last_on_brightness s \<and>
         last_on_temp_kelvin (vl (callback g s new)) = last_on_temp_kelvin s"
proof (cases new)
  case Empty_string
  then show ?thesis by (simp add: callback_def returns_def)
next
  case (State_dict d)
  with assms have "\<not> (state d = ''on'' \<and> brightness (attributes d) \<noteq> None)"
    by blast
  with State_dict show ?thesis
    by (auto simp: callback_def VirtualLightState_of_def returns_def raises_def
          turn_on_with_brightness_and_temp_kelvin_def split: option.splits)
qed



lemma perform_last_on:
  assumes "last_on_temp_kelvin s \<noteq> None \<longrightarrow> last_on_brightness s \<noteq> None"
  shows "last_on_temp_kelvin (vl (perform g api s op)) \<noteq> None \<longrightarrow>
         last_on_brightness (vl (perform g api s op)) \<noteq> None"
proof (cases op)
  case (Call_callback new)
  show ?thesis
  proof (cases "\<exists>d. new = State_dict d \<and> room s \<noteq> None \<and> state d = ''on'' \<and>
                  brightness (attributes d) \<noteq> None")
    case True
    then obtain d r b where "new = State_dict d" "room s = Some r" "state d = ''on''"
      "brightness (attributes d) = Some b"
      by auto
    with Call_callback show ?thesis
      by (simp add: callback_on_run returns_def)
  next
    case False
    then have "vl (callback g s new) = s"
      by (auto simp: callback_def VirtualLightState_of_def returns_def raises_def
            turn_on_with_brightness_and_temp_kelvin_def split: new_value.splits option.splits)
    with Call_callback assms show ?thesis
      by simp
  qed
qed (use assms in \<open>simp_all add: returns_def raises_def
        set_overwrite_next_on_brightness_def set_overwrite_next_on_temp_kelvin_def
        turn_on_def turn_on_with_brightness_def turn_on_with_brightness_and_temp_kelvin_def
        turn_on_with_brightness_and_rgb_def turn_off_def toggle_def
        turn_on_with_max_illumination_def turn_on_with_last_or_default_temp_kelvin_def
        turn_on_with_brightness_delta_def turn_on_with_brightness_delta_decimal_def
        turn_on_with_temp_kelvin_delta_def turn_on_with_temp_kelvin_delta_decimal_def
        Let_def split: option.splits sum.splits\<close>)

lemma reachable_last_on:
  "reachable s \<Longrightarrow> last_on_temp_kelvin s \<noteq> None \<longrightarrow> last_on_brightness s \<noteq> None"
proof (induction rule: reachable.induct)
  case (constructed hid les)
  show ?case by (simp add: init_def returns_def)
next
  case (performed s g api op)
  from performed.IH show ?case by (rule perform_last_on)
qed

lemma example_callback_last_on_temp_kelvin:
  "last_on_temp_kelvin (vl (callback example_globals example_light
      (State_dict \<lparr>state = ''on'', attributes = example_attributes\<rparr>))) = Some 4000"
  using callback_on_run
    [of example_light example_room "\<lparr>state = ''on'', attributes = example_attributes\<rparr>" 250
        example_globals]
  by (simp add: returns_def example_light_def example_attributes_def)

lemma callback_before_room_assigned:
  "room s = None \<Longrightarrow> callback g s (State_dict d) = raises AttributeError s []"
  by (simp add: callback_def)

lemma fresh_light_reachable: "reachable fresh_light"
  unfolding fresh_light_def by (rule constructed)

lemma fresh_light_room: "room fresh_light = None"
  by (simp add: fresh_light_def init_def returns_def)

lemma fresh_light_entities: "light_entities fresh_light = example_entities"
  by (simp add: fresh_light_def init_def returns_def)

lemma turn_on_effects:
  "turn_on s =
     returns s
       [Api_turn_on (ha_id s)
          (case overwrite_next_on_brightness s of None \<Rightarrow> Absent | Some b \<Rightarrow> Given (Some b))
          (case overwrite_next_on_brightness s of
             None \<Rightarrow> Absent
           | Some b \<Rightarrow>
               (case overwrite_next_on_temp_kelvin s of
                  None \<Rightarrow> Absent
                | Some t \<Rightarrow> Given (Some t)))
          Absent]"
  by (simp add: turn_on_def turn_on_with_brightness_def
        turn_on_with_brightness_and_temp_kelvin_def split: option.splits)

subsection \<open>The callback on an event that turns the light on\<close>

text \<open>
  Claim C1. On an object whose room has been assigned, the callback on an event with
  state \<open>''on''\<close> and a brightness \<open>b\<close> that is not \<^verbatim>\<open>None\<close> returns without raising,
  and the calls that reach the physical light entities are exactly one per entity of
  \<open>light_entities\<close>, in the order of that list, chosen by the priority list: the call
  with brightness and colour temperature when the event has a colour temperature and
  the entity has that method; else the call with brightness and RGB colour when the
  event has one and the entity has that method; else the call with brightness when the
  entity has that method; else a plain turn-on when the brightness exceeds 247 and the
  colour temperature is present and exceeds 2900; else a turn-off.
\<close>

theorem callback_on_cascade:
  assumes "room s = Some r" and "state d = ''on''" and "brightness (attributes d) = Some b"
  shows "raised (callback g s (State_dict d)) = None \<and>
    entity_calls (effects (callback g s (State_dict d))) =
      map (\<lambda>e. (e,
        if color_temp_kelvin (attributes d) \<noteq> None \<and> has_turn_on_with_brightness_and_temp_kelvin e
        then Turn_on_with_brightness_and_temp_kelvin (Some b) (color_temp_kelvin (attributes d))
        else if rgb_color (attributes d) \<noteq> None \<and> has_turn_on_with_brightness_and_rgb e
        then Turn_on_with_brightness_and_rgb (Some b) (rgb_color (attributes d))
        else if has_turn_on_with_brightness e
        then Turn_on_with_brightness (Some b)
        else if b > 247 \<and> (\<exists>t. color_temp_kelvin (attributes d) = Some t \<and> t > 2900)
        then Turn_on
        else Turn_off))
      (light_entities s)"
  by (simp add: callback_on_run [OF assms] returns_def update_light_entities_on [OF assms(3)]
        entity_calls_map_Entity_call)

theorem callback_on_cascade_witness:
  "raised (callback example_globals example_light
       (State_dict \<lparr>state = ''on'', attributes = example_attributes\<rparr>)) = None \<and>
   entity_calls (effects (callback example_globals example_light
       (State_dict \<lparr>state = ''on'', attributes = example_attributes\<rparr>))) =
     [(example_entities ! 0, Turn_on_with_brightness_and_temp_kelvin (Some 250) (Some 4000)),
      (example_entities ! 1, Turn_on_with_brightness (Some 250)),
      (example_entities ! 2, Turn_on)]"
proof -
  have r: "room example_light = Some example_room"
    by (simp add: example_light_def)
  have st: "state \<lparr>state = ''on'', attributes = example_attributes\<rparr> = ''on''"
    by simp
  have b: "brightness (attributes \<lparr>state = ''on'', attributes = example_attributes\<rparr>) = Some 250"
    by (simp add: example_attributes_def)
  show ?thesis
    using callback_on_cascade [OF r st b, of example_globals]
    by (simp add: example_light_def example_entities_def example_attributes_def)
qed

text \<open>
  Without the assignment of the room the property fails. On the object as constructed,
  which has three light entities, the same event with brightness 250 makes the callback
  raise \<^verbatim>\<open>AttributeError\<close> at its first log call, and no entity is called.
\<close>

theorem callback_on_cascade_counterexample:
  "reachable fresh_light \<and>
   length (light_entities fresh_light) = 3 \<and>
   brightness example_attributes = Some 250 \<and>
   raised (callback example_globals fresh_light
       (State_dict \<lparr>state = ''on'', attributes = example_attributes\<rparr>)) = Some AttributeError \<and>
   entity_calls (effects (callback example_globals fresh_light
       (State_dict \<lparr>state = ''on'', attributes = example_attributes\<rparr>))) = []"
  by (simp add: fresh_light_reachable fresh_light_entities
        callback_before_room_assigned [OF fresh_light_room] raises_def
        example_entities_def example_attributes_def)

text \<open>
  Claim C3. After the callback has run on an event with state \<open>''on''\<close> and a brightness
  that is not \<^verbatim>\<open>None\<close> (on an object whose room has been assigned), both overwrite
  values are \<^verbatim>\<open>None\<close>. Whatever the event and the object, the callback leaves every
  field other than the two last-on values and the two overwrite values as it was.
\<close>

theorem callback_clears_overwrites:
  "(room s = Some r \<and> state d = ''on'' \<and> brightness (attributes d) \<noteq> None \<longrightarrow>
      overwrite_next_on_brightness (vl (callback g s (State_dict d))) = None \<and>
      overwrite_next_on_temp_kelvin (vl (callback g s (State_dict d))) = None) \<and>
   ha_id (vl (callback g s new)) = ha_id s \<and>
   room (vl (callback g s new)) = room s \<and>
   light_entities (vl (callback g s new)) = light_entities s \<and>
   default_temp_kelvin (vl (callback g s new)) = default_temp_kelvin s"
proof -
  have "overwrite_next_on_brightness (vl (callback g s (State_dict d))) = None \<and>
        overwrite_next_on_temp_kelvin (vl (callback g s (State_dict d))) = None"
    if "room s = Some r" and "state d = ''on''" and "brightness (attributes d) \<noteq> None"
  proof -
    from that(3) obtain b where "brightness (attributes d) = Some b"
      by auto
    with that show ?thesis
      by (simp add: callback_on_run returns_def)
  qed
  with callback_frame [of g s new] show ?thesis
    by blast
qed

theorem callback_clears_overwrites_witness:
  "overwrite_next_on_brightness (vl (callback example_globals
      (example_light\<lparr>overwrite_next_on_brightness := Some 40,
                      overwrite_next_on_temp_kelvin := Some 2200\<rparr>)
      (State_dict \<lparr>state = ''on'', attributes = example_attributes\<rparr>))) = None \<and>
   overwrite_next_on_temp_kelvin (vl (callback example_globals
      (example_light\<lparr>overwrite_next_on_brightness := Some 40,
                      overwrite_next_on_temp_kelvin := Some 2200\<rparr>)
      (State_dict \<lparr>state = ''on'', attributes = example_attributes\<rparr>))) = None"
  using callback_clears_overwrites
    [of "example_light\<lparr>overwrite_next_on_brightness := Some 40,
                        overwrite_next_on_temp_kelvin := Some 2200\<rparr>"
        example_room "\<lparr>state = ''on'', attributes = example_attributes\<rparr>" example_globals]
  by (simp add: example_light_def example_attributes_def)

text \<open>
  Without the assignment of the room the clearing fails. On the object as constructed,
  after \<open>set_overwrite_next_on_temp_kelvin\<close> with 2200, the same event makes the
  callback raise before it clears anything: the overwrite value is still there.
\<close>

theorem callback_clears_overwrites_counterexample:
  "reachable (vl (set_overwrite_next_on_temp_kelvin fresh_light (Some 2200))) \<and>
   brightness example_attributes = Some 250 \<and>
   raised (callback example_globals
       (vl (set_overwrite_next_on_temp_kelvin fresh_light (Some 2200)))
       (State_dict \<lparr>state = ''on'', attributes = example_attributes\<rparr>)) = Some AttributeError \<and>
   overwrite_next_on_temp_kelvin (vl (callback example_globals
       (vl (set_overwrite_next_on_temp_kelvin fresh_light (Some 2200)))
       (State_dict \<lparr>state = ''on'', attributes = example_attributes\<rparr>))) = Some 2200"
proof -
  let ?s = "vl (set_overwrite_next_on_temp_kelvin fresh_light (Some 2200))"
  have "reachable (vl (perform example_globals example_api fresh_light
      (Call_set_overwrite_next_on_temp_kelvin (Some 2200))))"
    using fresh_light_reachable by (rule performed)
  then have r: "reachable ?s"
    by simp
  have n: "room ?s = None"
    by (simp add: set_overwrite_next_on_temp_kelvin_def returns_def fresh_light_room)
  show ?thesis
    using r
    by (simp add: callback_before_room_assigned [OF n] raises_def example_attributes_def)
       (simp add: set_overwrite_next_on_temp_kelvin_def returns_def)
qed

subsection \<open>The callback on an event that turns the light off\<close>




subsection \<open>The last-on values\<close>

text \<open>
  Claim C7. After the callback has run on an event with state \<open>''on''\<close> and a brightness
  that is not \<^verbatim>\<open>None\<close> (on an object whose room has been assigned),
  \<open>last_on_brightness\<close> is the brightness of the event and \<open>last_on_temp_kelvin\<close> is
  its colour temperature, which may be \<^verbatim>\<open>None\<close>. On every other value of \<^verbatim>\<open>new\<close>,
  whatever the object, the callback leaves both fields as they were.
\<close>

theorem callback_tracks_last_on:
  "(room s = Some r \<and> state d = ''on'' \<and> brightness (attributes d) \<noteq> None \<longrightarrow>
      last_on_brightness (vl (callback g s (State_dict d))) = brightness (attributes d) \<and>
      last_on_temp_kelvin (vl (callback g s (State_dict d))) = color_temp_kelvin (attributes d)) \<and>
   ((\<forall>d. new = State_dict d \<longrightarrow> \<not> (state d = ''on'' \<and> brightness (attributes d) \<noteq> None)) \<longrightarrow>
      last_on_brightness (vl (callback g s new)) = last_on_brightness s \<and>
      last_on_temp_kelvin (vl (callback g s new)) = last_on_temp_kelvin s)"
proof -
  have "last_on_brightness (vl (callback g s (State_dict d))) = brightness (attributes d) \<and>
        last_on_temp_kelvin (vl (callback g s (State_dict d))) = color_temp_kelvin (attributes d)"
    if "room s = Some r" and "state d = ''on''" and "brightness (attributes d) \<noteq> None"
  proof -
    from that(3) obtain b where "brightness (attributes d) = Some b"
      by auto
    with that show ?thesis
      by (simp add: callback_on_run returns_def)
  qed
  with callback_not_on_last_on [of new g s] show ?thesis
    by blast
qed

theorem callback_tracks_last_on_witness:
  "last_on_brightness (vl (callback example_globals example_light
      (State_dict \<lparr>state = ''on'', attributes = example_attributes\<lparr>color_temp_kelvin := None\<rparr>\<rparr>)))
     = Some 250 \<and>
   last_on_temp_kelvin (vl (callback example_globals example_light
      (State_dict \<lparr>state = ''on'', attributes = example_attributes\<lparr>color_temp_kelvin := None\<rparr>\<rparr>)))
     = None \<and>
   last_on_brightness (vl (callback example_globals
      (example_light\<lparr>last_on_brightness := Some 17, last_on_temp_kelvin := Some 2500\<rparr>)
      (State_dict \<lparr>state = ''off'', attributes = example_attributes\<rparr>))) = Some 17 \<and>
   last_on_temp_kelvin (vl (callback example_globals
      (example_light\<lparr>last_on_brightness := Some 17, last_on_temp_kelvin := Some 2500\<rparr>)
      (State_dict \<lparr>state = ''off'', attributes = example_attributes\<rparr>))) = Some 2500"
  using
    callback_tracks_last_on
      [of example_light example_room
          "\<lparr>state = ''on'', attributes = example_attributes\<lparr>color_temp_kelvin := None\<rparr>\<rparr>"
          example_globals Empty_string]
    callback_tracks_last_on
      [of "example_light\<lparr>last_on_brightness := Some 17, last_on_temp_kelvin := Some 2500\<rparr>"
          example_room "\<lparr>state = ''off'', attributes = example_attributes\<rparr>" example_globals
          "State_dict \<lparr>state = ''off'', attributes = example_attributes\<rparr>"]
  by (simp add: example_light_def example_attributes_def)

text \<open>
  Without the assignment of the room the tracking fails. On the object as constructed,
  the event with brightness 250 and colour temperature 4000 makes the callback raise
  before it assigns anything: both last-on values are still \<^verbatim>\<open>None\<close>.
\<close>

theorem callback_tracks_last_on_counterexample:
  "reachable fresh_light \<and>
   brightness example_attributes = Some 250 \<and>
   color_temp_kelvin example_attributes = Some 4000 \<and>
   last_on_brightness (vl (callback example_globals fresh_light
       (State_dict \<lparr>state = ''on'', attributes = example_attributes\<rparr>))) = None \<and>
   last_on_temp_kelvin (vl (callback example_globals fresh_light
       (State_dict \<lparr>state = ''on'', attributes = example_attributes\<rparr>))) = None"
  by (simp add: fresh_light_reachable callback_before_room_assigned [OF fresh_light_room]
        raises_def example_attributes_def)
     (simp add: fresh_light_def init_def returns_def)

text \<open>
  Claim C8. In every object reachable from construction by assigning the room, calling
  methods and running the callback, \<open>last_on_brightness\<close> is not \<^verbatim>\<open>None\<close> whenever
  \<open>last_on_temp_kelvin\<close> is not \<^verbatim>\<open>None\<close>. So the one platform call of
  \<open>turn_on_with_last_or_default_temp_kelvin\<close> is a turn-on whose brightness and colour
  temperature are both numbers.
\<close>

theorem reachable_last_on_invariant:
  assumes "reachable s"
  shows "(last_on_temp_kelvin s \<noteq> None \<longrightarrow> last_on_brightness s \<noteq> None) \<and>
    (\<exists>b t. turn_on_with_last_or_default_temp_kelvin s =
       returns s [Api_turn_on (ha_id s) (Given (Some b)) (Given (Some t)) Absent])"
proof -
  have inv: "last_on_temp_kelvin s \<noteq> None \<longrightarrow> last_on_brightness s \<noteq> None"
    using assms by (rule reachable_last_on)
  then have "\<exists>b t. turn_on_with_last_or_default_temp_kelvin s =
       returns s [Api_turn_on (ha_id s) (Given (Some b)) (Given (Some t)) Absent]"
    by (cases "last_on_brightness s"; cases "last_on_temp_kelvin s")
       (simp_all add: turn_on_with_last_or_default_temp_kelvin_def
          turn_on_with_brightness_and_temp_kelvin_def returns_def)
  with inv show ?thesis
    by blast
qed

theorem reachable_last_on_invariant_witness:
  "reachable (vl (callback example_globals example_light
      (State_dict \<lparr>state = ''on'', attributes = example_attributes\<rparr>))) \<and>
   last_on_temp_kelvin (vl (callback example_globals example_light
      (State_dict \<lparr>state = ''on'', attributes = example_attributes\<rparr>))) = Some 4000 \<and>
   last_on_brightness (vl (callback example_globals example_light
      (State_dict \<lparr>state = ''on'', attributes = example_attributes\<rparr>))) \<noteq> None \<and>
   (\<exists>b t. turn_on_with_last_or_default_temp_kelvin (vl (callback example_globals example_light
      (State_dict \<lparr>state = ''on'', attributes = example_attributes\<rparr>))) =
     returns (vl (callback example_globals example_light
         (State_dict \<lparr>state = ''on'', attributes = example_attributes\<rparr>)))
       [Api_turn_on ''light.virtual_living_room'' (Given (Some b)) (Given (Some t)) Absent])"
proof -
  let ?s = "vl (callback example_globals example_light
      (State_dict \<lparr>state = ''on'', attributes = example_attributes\<rparr>))"
  have "reachable (vl (perform example_globals example_api example_light
      (Call_callback (State_dict \<lparr>state = ''on'', attributes = example_attributes\<rparr>))))"
    using example_light_reachable by (rule performed)
  then have r: "reachable ?s"
    by simp
  have t: "last_on_temp_kelvin ?s = Some 4000"
    by (simp add: example_callback_last_on_temp_kelvin)
  have h: "ha_id ?s = ''light.virtual_living_room''"
    by (simp add: callback_frame example_light_def)
  show ?thesis
    using reachable_last_on_invariant [OF r] r t h
    by simp
qed

subsection \<open>The callback on other events\<close>







subsection \<open>The deltas\<close>

text \<open>
  Claim C4. When the platform reports the brightness \<open>b\<close>, the method
  \<open>turn_on_with_brightness_delta\<close> with the delta \<open>d\<close> makes one platform call, a
  turn-on whose brightness is \<open>b + d\<close> clamped to the range from 0 to 255: 0 when
  \<open>b + d < 0\<close>, 255 when \<open>b + d > 255\<close>, and \<open>b + d\<close> otherwise.
\<close>

theorem turn_on_with_brightness_delta_clamps:
  assumes "get_brightness api s = Some b"
  shows "turn_on_with_brightness_delta api s d =
      returns s
        [Api_turn_on (ha_id s)
           (Given (Some (if b + d < 0 then 0 else if b + d > 255 then 255 else b + d)))
           (case overwrite_next_on_temp_kelvin s of None \<Rightarrow> Absent | Some t \<Rightarrow> Given (Some t))
           Absent] \<and>
    0 \<le> (if b + d < 0 then 0 else if b + d > 255 then 255 else b + d) \<and>
    (if b + d < 0 then 0 else if b + d > 255 then 255 else b + d) \<le> 255"
  using assms
  by (simp add: turn_on_with_brightness_delta_def turn_on_with_brightness_effects Let_def)

theorem turn_on_with_brightness_delta_clamps_witness:
  "turn_on_with_brightness_delta example_api example_light 10 =
     returns example_light
       [Api_turn_on ''light.virtual_living_room'' (Given (Some 255)) Absent Absent] \<and>
   turn_on_with_brightness_delta example_api example_light (- 300) =
     returns example_light
       [Api_turn_on ''light.virtual_living_room'' (Given (Some 0)) Absent Absent] \<and>
   turn_on_with_brightness_delta example_api example_light (- 50) =
     returns example_light
       [Api_turn_on ''light.virtual_living_room'' (Given (Some 200)) Absent Absent]"
proof -
  have b: "get_brightness example_api example_light = Some 250"
    by (simp add: get_brightness_def example_api_def example_attributes_def)
  show ?thesis
    using turn_on_with_brightness_delta_clamps [OF b, of 10]
      turn_on_with_brightness_delta_clamps [OF b, of "- 300"]
      turn_on_with_brightness_delta_clamps [OF b, of "- 50"]
    by (simp add: example_light_def)
qed



subsection \<open>The overwrite values and a plain turn-on\<close>

text \<open>
  Claim C2. The overwrite values are meant for the next turn-on, so \<open>turn_on\<close> should
  send each one that is set. It sends a brightness that is set, and a colour temperature
  that is set together with a brightness (\<open>turn_on_effects\<close>). A colour temperature
  that is set alone is not sent: after \<open>set_overwrite_next_on_temp_kelvin\<close> with 2700
  on the example light, where no brightness is set, the value is stored and the platform
  call of \<open>turn_on\<close> has no keyword argument at all.
\<close>

theorem turn_on_drops_lone_temp_overwrite:
  "overwrite_next_on_temp_kelvin
      (vl (set_overwrite_next_on_temp_kelvin example_light (Some 2700))) = Some 2700 \<and>
   turn_on (vl (set_overwrite_next_on_temp_kelvin example_light (Some 2700))) =
     returns (vl (set_overwrite_next_on_temp_kelvin example_light (Some 2700)))
       [Api_turn_on ''light.virtual_living_room'' Absent Absent Absent]"
  by (simp add: set_overwrite_next_on_temp_kelvin_def turn_on_def returns_def example_light_def)

end
